theory Spec2Isabelle
  imports Complex_Main "HOL-Library.Multiset"
begin

section \<open>The perception graph of \<open>neo4j_perceptron.py\<close>\<close>

text \<open>
  The program keeps its data in a property graph and works on it through Cypher
  statements sent from Python. The embedding below gives each statement the meaning the
  Cypher language fixes for it, over an explicit graph value that every operation takes
  and returns.

  Numbers: embeddings, similarities, weights and the accuracy are IEEE doubles in the
  program; here they are \<^typ>\<open>real\<close>, so rounding, infinities and NaN are left out. The
  concrete inputs used below are dyadic fractions and small integers, on which double
  arithmetic is exact, or the program's own sample data, whose similarities lie far apart.
  \<open>activation_count\<close> is a 64-bit integer property that only ever starts at 0 and grows
  by 1 per query; it is a \<^typ>\<open>nat\<close> here.
\<close>

subsection \<open>Data\<close>

text \<open>
  A \<open>Perception\<close> node carries the four properties written by the \<open>CREATE\<close> of
  \<open>store_perception\<close>. The program declares no uniqueness constraint on \<open>bundle_id\<close>,
  so the graph is a list of nodes in creation order (a node is identified by its position)
  and a list of \<open>RELATES\<close> edges between positions.
\<close>

record perception =
  bundle_id :: string
  embedding :: "real list"
  activation_count :: nat
  confidence :: real

record relates =
  source :: nat
  dest :: nat
  rel_weight :: real

record graph =
  nodes :: "perception list"
  rels :: "relates list"

text \<open>An entry of the \<open>relations\<close> argument: \<open>{'target': ..., 'weight': ...}\<close>.\<close>

record relation =
  target :: string
  weight :: real

text \<open>An entry of \<open>training_data\<close>: \<open>{'id': ..., 'embedding': ..., 'relations': ...}\<close>.\<close>

record training_item =
  item_id :: string
  item_embedding :: "real list"
  item_relations :: "relation list"

text \<open>An entry of \<open>test_queries\<close>: \<open>{'name': ..., 'embedding': ..., 'expected': ...}\<close>.\<close>

record test_query =
  query_name :: string
  query_embedding :: "real list"
  expected :: "string list"

text \<open>
  The only exception the modelled code raises by itself is Python's \<open>ZeroDivisionError\<close>
  (in \<open>test\<close>). The other constructors are the error names of the specification; no
  function below produces them.
\<close>

datatype error = ZeroDivisionError | EmptyInput | DimensionMismatch | DuplicateKey

definition empty_graph :: graph where
  "empty_graph = \<lparr>nodes = [], rels = []\<rparr>"

subsection \<open>\<open>PerceptionStore.store_perception\<close>\<close>

text \<open>
  Step 1, \<open>CREATE (p:Perception {bundle_id: $bundle_id, embedding: $embedding,
  activation_count: 0, confidence: 0.5})\<close>: a new node, whatever the graph holds.
\<close>

definition create_node :: "string \<Rightarrow> real list \<Rightarrow> graph \<Rightarrow> graph" where
  "create_node b e g =
     g\<lparr>nodes := nodes g @
          [\<lparr>bundle_id = b, embedding = e, activation_count = 0, confidence = 0.5\<rparr>]\<rparr>"

text \<open>\<open>MATCH (p:Perception {bundle_id: $x})\<close>: the nodes with that id, in node order.\<close>

definition match_id :: "graph \<Rightarrow> string \<Rightarrow> nat list" where
  "match_id g x = filter (\<lambda>i. bundle_id (nodes g ! i) = x) [0..<length (nodes g)]"

text \<open>
  Step 2, once per relation:
  \<open>MATCH (p1:Perception {bundle_id: $bundle_id}) MATCH (p2:Perception {bundle_id: $target})
  CREATE (p1)-[:RELATES {weight: $weight}]->(p2)\<close>.
  The two \<open>MATCH\<close> clauses produce one row per pair of matching nodes and \<open>CREATE\<close> runs
  once per row; with no row, nothing is created and nothing is raised.
\<close>

definition create_relates :: "string \<Rightarrow> relation \<Rightarrow> graph \<Rightarrow> graph" where
  "create_relates b r g =
     g\<lparr>rels := rels g @
          concat (map (\<lambda>p1. map (\<lambda>p2. \<lparr>source = p1, dest = p2, rel_weight = weight r\<rparr>)
                                 (match_id g (target r)))
                      (match_id g b))\<rparr>"

definition store_perception :: "graph \<Rightarrow> string \<Rightarrow> real list \<Rightarrow> relation list \<Rightarrow> graph" where
  "store_perception g b e rs = fold (create_relates b) rs (create_node b e g)"

subsection \<open>\<open>PerceptionStore.activate_perceptions\<close>\<close>

text \<open>
  A Cypher list subscript past the end of the list is \<open>null\<close>, and arithmetic with
  \<open>null\<close> is \<open>null\<close>; \<open>None\<close> stands for \<open>null\<close>.
\<close>

definition subscript :: "real list \<Rightarrow> nat \<Rightarrow> real option" where
  "subscript xs i = (if i < length xs then Some (xs ! i) else None)"

definition cy_mult :: "real option \<Rightarrow> real option \<Rightarrow> real option" where
  "cy_mult a b = (case a of None \<Rightarrow> None | Some x \<Rightarrow> (case b of None \<Rightarrow> None | Some y \<Rightarrow> Some (x * y)))"

definition cy_add :: "real option \<Rightarrow> real option \<Rightarrow> real option" where
  "cy_add a b = (case a of None \<Rightarrow> None | Some x \<Rightarrow> (case b of None \<Rightarrow> None | Some y \<Rightarrow> Some (x + y)))"

text \<open>
  \<open>reduce(dot = 0.0, i IN range(0, size(p.embedding)-1) | dot + p.embedding[i] * $query[i])\<close>.
  \<open>range\<close> includes both ends, so \<open>i\<close> runs over \<open>0, ..., size - 1\<close>, and over nothing
  when the embedding is empty.
\<close>

definition similarity :: "real list \<Rightarrow> real list \<Rightarrow> real option" where
  "similarity emb query =
     fold (\<lambda>i dot. cy_add dot (cy_mult (subscript emb i) (subscript query i)))
          [0..<length emb] (Some 0)"

text \<open>
  \<open>MATCH (p:Perception) WITH p, ... AS similarity WHERE similarity > 0.5\<close>: the rows
  \<open>(p, similarity)\<close> that pass the filter, in node order. A \<open>null\<close> similarity does not
  pass.
\<close>

definition where_row :: "graph \<Rightarrow> real list \<Rightarrow> nat \<Rightarrow> (nat \<times> real) option" where
  "where_row g query p =
     (case similarity (embedding (nodes g ! p)) query of
        None \<Rightarrow> None
      | Some s \<Rightarrow> (if s > 0.5 then Some (p, s) else None))"

definition matched_rows :: "graph \<Rightarrow> real list \<Rightarrow> (nat \<times> real) list" where
  "matched_rows g query = List.map_filter (where_row g query) [0..<length (nodes g)]"

text \<open>\<open>SET p.activation_count = p.activation_count + 1\<close>, once per row.\<close>

definition set_activation :: "nat list \<Rightarrow> perception list \<Rightarrow> perception list" where
  "set_activation ps ns =
     fold (\<lambda>p ns. ns[p := (ns ! p)\<lparr>activation_count := activation_count (ns ! p) + 1\<rparr>]) ps ns"

text \<open>
  \<open>RETURN p.bundle_id, similarity ORDER BY similarity DESC LIMIT 5\<close>, over all the rows
  that went through \<open>SET\<close>. Cypher leaves the order of rows with equal similarity open; the
  sort here keeps them in node order.
\<close>

definition returned_rows :: "graph \<Rightarrow> real list \<Rightarrow> (nat \<times> real) list" where
  "returned_rows g query = take 5 (sort_key (\<lambda>r. - snd r) (matched_rows g query))"

definition activate_perceptions :: "graph \<Rightarrow> real list \<Rightarrow> (string \<times> real) list \<times> graph" where
  "activate_perceptions g query =
     (let rows = matched_rows g query;
          g' = g\<lparr>nodes := set_activation (map fst rows) (nodes g)\<rparr>
      in (map (\<lambda>r. (bundle_id (nodes g' ! fst r), snd r)) (returned_rows g query), g'))"

subsection \<open>\<open>PerceptionTrainer\<close>\<close>

definition train :: "graph \<Rightarrow> training_item list \<Rightarrow> graph" where
  "train g training_data =
     fold (\<lambda>d g. store_perception g (item_id d) (item_embedding d) (item_relations d))
          training_data g"

definition calculate_accuracy :: "(string \<times> real) list \<Rightarrow> string list \<Rightarrow> real" where
  "calculate_accuracy activated expected_ids =
     (case activated of
        [] \<Rightarrow> 0
      | top_result # _ \<Rightarrow> (if fst top_result \<in> set expected_ids then 1 else 0))"

text \<open>The loop of \<open>test\<close>: the accuracies in query order, and the graph after the queries.\<close>

fun test_loop :: "graph \<Rightarrow> test_query list \<Rightarrow> real list \<Rightarrow> real list \<times> graph" where
  "test_loop g [] results = (results, g)"
| "test_loop g (q # qs) results =
     (let (activated, g') = activate_perceptions g (query_embedding q);
          accuracy = calculate_accuracy activated (expected q)
      in test_loop g' qs (results @ [accuracy]))"

text \<open>\<open>sum(results) / len(results)\<close> raises \<open>ZeroDivisionError\<close> when \<open>results\<close> is empty.\<close>

definition test :: "graph \<Rightarrow> test_query list \<Rightarrow> (error + real) \<times> graph" where
  "test g test_queries =
     (let (results, g') = test_loop g test_queries []
      in (if length results = 0 then Inl ZeroDivisionError
          else Inr (sum_list results / real (length results)), g'))"

subsection \<open>The sample data of the program\<close>

text \<open>\<open>create_synthetic_data\<close> and \<open>create_test_queries\<close>, the program's sample data.\<close>

definition create_synthetic_data :: "training_item list" where
  "create_synthetic_data =
     [\<lparr>item_id = ''visual_cat'', item_embedding = [0.8, 0.2, 0.9],
        item_relations = [\<lparr>target = ''visual_animal'', weight = 0.9\<rparr>]\<rparr>,
      \<lparr>item_id = ''visual_dog'', item_embedding = [0.7, 0.3, 0.8],
        item_relations = [\<lparr>target = ''visual_animal'', weight = 0.8\<rparr>]\<rparr>,
      \<lparr>item_id = ''visual_animal'', item_embedding = [0.6, 0.4, 0.7],
        item_relations = []\<rparr>]"

definition create_test_queries :: "test_query list" where
  "create_test_queries =
     [\<lparr>query_name = ''cat_query'', query_embedding = [0.75, 0.25, 0.85],
        expected = [''visual_cat'']\<rparr>,
      \<lparr>query_name = ''dog_query'', query_embedding = [0.65, 0.35, 0.75],
        expected = [''visual_dog'']\<rparr>,
      \<lparr>query_name = ''animal_query'', query_embedding = [0.55, 0.45, 0.65],
        expected = [''visual_animal'']\<rparr>]"

text \<open>The demo run of the program stores the sample data into an empty graph.\<close>

definition demo_graph :: graph where
  "demo_graph = train empty_graph create_synthetic_data"

subsection \<open>Notions of the specification\<close>

text \<open>The raw (unnormalised) dot product of two vectors.\<close>

definition dot_product :: "real list \<Rightarrow> real list \<Rightarrow> real" where
  "dot_product xs ys = sum_list (map2 (*) xs ys)"

text \<open>A perception clears the threshold when its similarity is a number above 0.5.\<close>

definition clears_threshold :: "perception \<Rightarrow> real list \<Rightarrow> bool" where
  "clears_threshold p query =
     (case similarity (embedding p) query of None \<Rightarrow> False | Some s \<Rightarrow> s > 0.5)"

text \<open>
  The retained perceptions of a query, as \<open>(id, similarity)\<close> pairs in node order: those
  whose similarity strictly exceeds the threshold 0.5.
\<close>

definition retained :: "perception list \<Rightarrow> real list \<Rightarrow> (string \<times> real) list" where
  "retained ns query =
     List.map_filter
       (\<lambda>p. case similarity (embedding p) query of
               None \<Rightarrow> None
             | Some s \<Rightarrow> (if s > 0.5 then Some (bundle_id p, s) else None)) ns"

text \<open>
  The binary accuracy of one query against a graph: 1 if the id of the top-ranked result
  is one of the expected ids, 0 otherwise, and 0 when there is no result.
\<close>

definition binary_accuracy :: "graph \<Rightarrow> test_query \<Rightarrow> real" where
  "binary_accuracy g q =
     (case fst (activate_perceptions g (query_embedding q)) of
        [] \<Rightarrow> 0
      | r # _ \<Rightarrow> (if fst r \<in> set (expected q) then 1 else 0))"

text \<open>
  The edges one relation of \<open>store_perception\<close> creates in a graph: one for each pair of a
  node carrying the new id and a node carrying the target id.
\<close>

definition edges_of :: "graph \<Rightarrow> string \<Rightarrow> relation \<Rightarrow> relates list" where
  "edges_of g b r =
     concat (map (\<lambda>p1. map (\<lambda>p2. \<lparr>source = p1, dest = p2, rel_weight = weight r\<rparr>)
                            (match_id g (target r)))
                 (match_id g b))"

subsection \<open>Sample graphs\<close>

text \<open>
  Seven perceptions of dimension 2; against the query \<open>[1, 0.5]\<close> their similarities are
  0.25, 1, 1.5, 2, 2.5, 3 and 3.5.
\<close>

definition ladder :: graph where
  "ladder = train empty_graph
     [\<lparr>item_id = ''p0'', item_embedding = [0.25, 0], item_relations = []\<rparr>,
      \<lparr>item_id = ''p1'', item_embedding = [0.5, 1], item_relations = []\<rparr>,
      \<lparr>item_id = ''p2'', item_embedding = [1, 1], item_relations = []\<rparr>,
      \<lparr>item_id = ''p3'', item_embedding = [1.5, 1], item_relations = []\<rparr>,
      \<lparr>item_id = ''p4'', item_embedding = [2, 1], item_relations = []\<rparr>,
      \<lparr>item_id = ''p5'', item_embedding = [2.5, 1], item_relations = []\<rparr>,
      \<lparr>item_id = ''p6'', item_embedding = [3, 1], item_relations = []\<rparr>]"


text \<open>One perception of dimension 2.\<close>

definition pair_graph :: graph where
  "pair_graph = store_perception empty_graph ''a'' [1, 1] []"

text \<open>Two creations with the same id.\<close>

definition twice :: graph where
  "twice = store_perception (store_perception empty_graph ''a'' [1] []) ''a'' [2] []"

text \<open>
  A graph with the perceptions \<open>x\<close> and \<open>y\<close>, to which a perception \<open>z\<close> is added with
  relations to \<open>y\<close>, to the missing id \<open>w\<close>, to \<open>x\<close> and to itself.
\<close>

definition xy_graph :: graph where
  "xy_graph = train empty_graph
     [\<lparr>item_id = ''x'', item_embedding = [1], item_relations = []\<rparr>,
      \<lparr>item_id = ''y'', item_embedding = [2], item_relations = []\<rparr>]"

definition z_relations :: "relation list" where
  "z_relations =
     [\<lparr>target = ''y'', weight = 0.75\<rparr>, \<lparr>target = ''w'', weight = 0.5\<rparr>,
      \<lparr>target = ''x'', weight = 0.25\<rparr>, \<lparr>target = ''z'', weight = 1\<rparr>]"

section \<open>Properties\<close>

subsection \<open>Evaluation on concrete graphs\<close>

lemmas eval_defs =
  train_def store_perception_def create_node_def create_relates_def match_id_def
  empty_graph_def activate_perceptions_def matched_rows_def where_row_def similarity_def
  subscript_def returned_rows_def set_activation_def map_filter_simps Let_def retained_def
  dot_product_def clears_threshold_def

subsection \<open>The similarity expression\<close>

lemma cy_simps [simp]:
  "cy_add (Some x) (Some y) = Some (x + y)" "cy_add None b = None" "cy_add a None = None"
  "cy_mult (Some x) (Some y) = Some (x * y)" "cy_mult None b = None" "cy_mult a None = None"
  by (simp_all add: cy_add_def cy_mult_def split: option.splits)

lemma fold_cy_add_null:
  "fold (\<lambda>i dot. cy_add dot (f i)) is None = None"
  by (induction "is") simp_all

lemma similarity_fold_prefix:
  "n \<le> length emb \<Longrightarrow> n \<le> length query \<Longrightarrow>
   fold (\<lambda>i dot. cy_add dot (cy_mult (subscript emb i) (subscript query i))) [0..<n] (Some a)
     = Some (a + (\<Sum>i<n. emb ! i * query ! i))"
proof (induction n)
  case 0
  then show ?case by simp
next
  case (Suc n)
  then show ?case by (simp add: subscript_def)
qed

lemma dot_product_sum:
  assumes "length xs \<le> length ys"
  shows "dot_product xs ys = (\<Sum>i<length xs. xs ! i * ys ! i)"
proof -
  have "dot_product xs ys = (\<Sum>i = 0..<length (map2 (*) xs ys). map2 (*) xs ys ! i)"
    unfolding dot_product_def by (rule sum_list_sum_nth)
  also have "\<dots> = (\<Sum>i = 0..<length xs. xs ! i * ys ! i)"
    using assms by (intro sum.cong) (simp_all add: min_def)
  finally show ?thesis by (simp add: atLeast0LessThan)
qed

lemma similarity_dot_product:
  "length emb \<le> length query \<Longrightarrow> similarity emb query = Some (dot_product emb query)"
  by (simp add: similarity_def similarity_fold_prefix dot_product_sum)

lemma similarity_null:
  assumes "length query < length emb"
  shows "similarity emb query = None"
proof -
  let ?f = "\<lambda>i. cy_mult (subscript emb i) (subscript query i)"
  have split: "[0..<length emb] = [0..<length query] @ length query # [Suc (length query)..<length emb]"
  proof -
    have "[0..<length emb] = [0..<length query] @ [length query..<length emb]"
      using assms upt_add_eq_append [of 0 "length query" "length emb - length query"] by simp
    then show ?thesis using assms by (simp add: upt_conv_Cons)
  qed
  have "?f (length query) = None" by (simp add: subscript_def)
  then show ?thesis
    unfolding similarity_def split by (simp add: fold_cy_add_null)
qed

subsection \<open>The activation counter\<close>

lemma length_set_activation [simp]: "length (set_activation ps ns) = length ns"
  unfolding set_activation_def by (induction ps arbitrary: ns) simp_all

lemma set_activation_nth:
  "i < length ns \<Longrightarrow>
   set_activation ps ns ! i =
     (ns ! i)\<lparr>activation_count := activation_count (ns ! i) + count_list ps i\<rparr>"
  unfolding set_activation_def
proof (induction ps arbitrary: ns)
  case Nil
  then show ?case by simp
next
  case (Cons p ps)
  then show ?case by (cases "p = i") (simp_all add: nth_list_update)
qed

subsection \<open>The result of a similarity query\<close>

lemma matched_rows_bound: "r \<in> set (matched_rows g query) \<Longrightarrow> fst r < length (nodes g)"
  by (auto simp: matched_rows_def map_filter_def where_row_def split: option.splits if_splits)

lemma project_map_filter:
  "map (\<lambda>r. (bundle_id (nodes g ! fst r), snd r)) (List.map_filter (where_row g query) js)
     = retained (map ((!) (nodes g)) js) query"
  by (induction js) (simp_all add: map_filter_simps retained_def where_row_def split: option.splits)

lemma project_matched_rows:
  "map (\<lambda>r. (bundle_id (nodes g ! fst r), snd r)) (matched_rows g query) = retained (nodes g) query"
  using project_map_filter [of g query "[0..<length (nodes g)]"]
  by (simp add: matched_rows_def map_nth)

lemma insort_key_map:
  "insort_key k (f x) (map f xs) = map f (insort_key (\<lambda>a. k (f a)) x xs)"
  by (induction xs) simp_all

lemma sort_key_map: "sort_key k (map f xs) = map f (sort_key (\<lambda>a. k (f a)) xs)"
  by (induction xs) (simp_all add: insort_key_map)

lemma bundle_id_set_activation:
  "i < length ns \<Longrightarrow> bundle_id (set_activation ps ns ! i) = bundle_id (ns ! i)"
  by (simp add: set_activation_nth)

lemma returned_rows_bound: "r \<in> set (returned_rows g query) \<Longrightarrow> fst r < length (nodes g)"
  unfolding returned_rows_def using matched_rows_bound [of r g query]
  by (auto dest: in_set_takeD)

lemma activate_perceptions_fst:
  "fst (activate_perceptions g query) = take 5 (sort_key (\<lambda>r. - snd r) (retained (nodes g) query))"
proof -
  have "fst (activate_perceptions g query)
      = map (\<lambda>r. (bundle_id (set_activation (map fst (matched_rows g query)) (nodes g) ! fst r), snd r))
            (returned_rows g query)"
    by (simp add: activate_perceptions_def Let_def)
  also have "\<dots> = map (\<lambda>r. (bundle_id (nodes g ! fst r), snd r)) (returned_rows g query)"
    by (rule map_cong [OF refl]) (simp add: bundle_id_set_activation returned_rows_bound)
  also have "\<dots> = take 5 (sort_key (\<lambda>r. - snd r)
                      (map (\<lambda>r. (bundle_id (nodes g ! fst r), snd r)) (matched_rows g query)))"
    by (simp add: returned_rows_def take_map sort_key_map)
  finally show ?thesis by (simp add: project_matched_rows)
qed

lemma top_of_sorted:
  fixes xs :: "('a \<times> real) list"
  defines "ys \<equiv> sort_key (\<lambda>r. - snd r) xs"
  shows "mset (take n ys) \<subseteq># mset xs"
    and "sorted_wrt (\<lambda>a b. snd b \<le> snd a) (take n ys)"
    and "length (take n ys) = min n (length xs)"
    and "r \<in> set xs \<Longrightarrow> r \<notin> set (take n ys) \<Longrightarrow> r' \<in> set (take n ys) \<Longrightarrow> snd r \<le> snd r'"
proof -
  have m: "mset ys = mset xs" by (simp add: ys_def)
  have "mset (take n ys) \<subseteq># mset (take n ys @ drop n ys)" by (simp del: append_take_drop_id)
  then show "mset (take n ys) \<subseteq># mset xs" using m by simp
  have "sorted (map (\<lambda>r. - snd r) ys)" by (simp add: ys_def)
  then have s: "sorted_wrt (\<lambda>a b. snd b \<le> snd a) ys" by (simp add: sorted_map)
  then show "sorted_wrt (\<lambda>a b. snd b \<le> snd a) (take n ys)" by (rule sorted_wrt_take)
  show "length (take n ys) = min n (length xs)" by (simp add: ys_def min.commute)
  assume r: "r \<in> set xs" "r \<notin> set (take n ys)" and r': "r' \<in> set (take n ys)"
  from r(1) have "r \<in> set (take n ys @ drop n ys)" using m by (simp add: ys_def)
  with r(2) have "r \<in> set (drop n ys)" by (simp del: append_take_drop_id)
  moreover from s have "sorted_wrt (\<lambda>a b. snd b \<le> snd a) (take n ys @ drop n ys)" by simp
  ultimately show "snd r \<le> snd r'" using r' unfolding sorted_wrt_append by blast
qed

text \<open>
  C1. For every graph and query vector, the similarity of a stored perception is the raw
  dot product of its embedding with the query (when the two have the same length); the
  query keeps exactly the perceptions whose similarity strictly exceeds 0.5, orders them
  by descending similarity and returns the first 5 as \<open>(id, similarity)\<close> pairs: the result
  is a sub-multiset of the retained pairs, is sorted by descending similarity, has
  \<open>min 5 n\<close> entries for \<open>n\<close> retained perceptions, every retained pair left out is no
  more similar than any returned pair, and the result is empty exactly when no perception
  clears the threshold.
\<close>

theorem activate_perceptions_ranking:
  "(\<forall>p \<in> set (nodes g). length (embedding p) = length query \<longrightarrow>
        similarity (embedding p) query = Some (dot_product (embedding p) query))
   \<and> fst (activate_perceptions g query) = take 5 (sort_key (\<lambda>r. - snd r) (retained (nodes g) query))
   \<and> mset (fst (activate_perceptions g query)) \<subseteq># mset (retained (nodes g) query)
   \<and> sorted_wrt (\<lambda>a b. snd b \<le> snd a) (fst (activate_perceptions g query))
   \<and> length (fst (activate_perceptions g query)) = min 5 (length (retained (nodes g) query))
   \<and> (\<forall>r \<in> set (retained (nodes g) query). \<forall>r' \<in> set (fst (activate_perceptions g query)).
         r \<notin> set (fst (activate_perceptions g query)) \<longrightarrow> snd r \<le> snd r')
   \<and> (fst (activate_perceptions g query) = [] \<longleftrightarrow> retained (nodes g) query = [])"
proof -
  let ?res = "fst (activate_perceptions g query)" and ?kept = "retained (nodes g) query"
  have eq: "?res = take 5 (sort_key (\<lambda>r. - snd r) ?kept)" by (rule activate_perceptions_fst)
  have len: "length ?res = min 5 (length ?kept)" unfolding eq by (rule top_of_sorted(3))
  have "?res = [] \<longleftrightarrow> ?kept = []" using len by (metis length_0_conv min_0R zero_neq_numeral min_def)
  moreover have "\<forall>p \<in> set (nodes g). length (embedding p) = length query \<longrightarrow>
        similarity (embedding p) query = Some (dot_product (embedding p) query)"
    by (simp add: similarity_dot_product)
  moreover have "mset ?res \<subseteq># mset ?kept" unfolding eq by (rule top_of_sorted(1))
  moreover have "sorted_wrt (\<lambda>a b. snd b \<le> snd a) ?res" unfolding eq by (rule top_of_sorted(2))
  moreover have "\<forall>r \<in> set ?kept. \<forall>r' \<in> set ?res. r \<notin> set ?res \<longrightarrow> snd r \<le> snd r'"
    unfolding eq using top_of_sorted(4) by blast
  ultimately show ?thesis using eq len by blast
qed


theorem activate_perceptions_ranking_witness:
  "length (embedding (nodes ladder ! 1)) = length [1, 0.5 :: real]
   \<and> similarity (embedding (nodes ladder ! 1)) [1, 0.5] = Some 1
   \<and> dot_product (embedding (nodes ladder ! 1)) [1, 0.5] = 1
   \<and> retained (nodes ladder) [1, 0.5] =
       [(''p1'', 1), (''p2'', 1.5), (''p3'', 2), (''p4'', 2.5), (''p5'', 3), (''p6'', 3.5)]
   \<and> fst (activate_perceptions ladder [1, 0.5]) =
       [(''p6'', 3.5), (''p5'', 3), (''p4'', 2.5), (''p3'', 2), (''p2'', 1.5)]"
  using activate_perceptions_ranking [of ladder "[1, 0.5]"]
  by (simp add: ladder_def eval_defs)

lemma where_row_clears:
  "where_row g query i \<noteq> None \<longleftrightarrow> clears_threshold (nodes g ! i) query"
  by (simp add: where_row_def clears_threshold_def split: option.splits)

lemma map_fst_matched_rows:
  "map fst (matched_rows g query) =
     filter (\<lambda>i. clears_threshold (nodes g ! i) query) [0..<length (nodes g)]"
proof -
  have "map fst (List.map_filter (where_row g query) js) =
          filter (\<lambda>i. clears_threshold (nodes g ! i) query) js" for js
    by (induction js)
       (auto simp: map_filter_simps where_row_def clears_threshold_def split: option.splits)
  then show ?thesis by (simp add: matched_rows_def)
qed

lemma count_list_distinct:
  "distinct xs \<Longrightarrow> count_list xs x = (if x \<in> set xs then 1 else 0)"
  by (induction xs) auto

lemma count_matched_rows:
  "i < length (nodes g) \<Longrightarrow>
   count_list (map fst (matched_rows g query)) i =
     (if clears_threshold (nodes g ! i) query then 1 else 0)"
  by (simp add: map_fst_matched_rows count_list_distinct)

lemma nodes_activate_perceptions:
  "nodes (snd (activate_perceptions g query)) =
     set_activation (map fst (matched_rows g query)) (nodes g)"
  by (simp add: activate_perceptions_def Let_def)

lemma activate_perceptions_nth:
  "i < length (nodes g) \<Longrightarrow>
   nodes (snd (activate_perceptions g query)) ! i =
     (nodes g ! i)\<lparr>activation_count := activation_count (nodes g ! i) +
        (if clears_threshold (nodes g ! i) query then 1 else 0)\<rparr>"
  by (simp add: nodes_activate_perceptions set_activation_nth count_matched_rows)

lemma returned_rows_subset:
  "set (returned_rows g query) \<subseteq> set (matched_rows g query)"
  unfolding returned_rows_def by (auto dest: in_set_takeD)

lemma returned_rows_all:
  "length (matched_rows g query) \<le> 5 \<Longrightarrow> set (returned_rows g query) = set (matched_rows g query)"
  unfolding returned_rows_def by simp

lemma fst_set_matched_rows:
  "i \<in> fst ` set (matched_rows g query) \<longleftrightarrow> i < length (nodes g) \<and> clears_threshold (nodes g ! i) query"
proof -
  have "fst ` set (matched_rows g query) = set (map fst (matched_rows g query))" by simp
  then show ?thesis unfolding map_fst_matched_rows by auto
qed

text \<open>
  C2 (as amended). A similarity query leaves the number of nodes, the edges and every
  node's id, embedding and confidence unchanged, and adds 1 to the \<open>activation_count\<close> of
  exactly the perceptions whose similarity strictly exceeds 0.5, whether or not \<open>LIMIT 5\<close>
  keeps them in the returned result. Every returned perception is one of these; when at
  most 5 perceptions clear the threshold, the incremented perceptions are exactly the
  returned ones. The returned pairs are the rows of \<open>returned_rows\<close> with the node replaced
  by its id.
\<close>

theorem activate_perceptions_counts:
  "length (nodes (snd (activate_perceptions g query))) = length (nodes g)
   \<and> rels (snd (activate_perceptions g query)) = rels g
   \<and> fst (activate_perceptions g query) =
       map (\<lambda>r. (bundle_id (nodes g ! fst r), snd r)) (returned_rows g query)
   \<and> (\<forall>i < length (nodes g).
        nodes (snd (activate_perceptions g query)) ! i =
          (nodes g ! i)\<lparr>activation_count := activation_count (nodes g ! i) +
             (if clears_threshold (nodes g ! i) query then 1 else 0)\<rparr>
        \<and> (i \<in> fst ` set (returned_rows g query) \<longrightarrow> clears_threshold (nodes g ! i) query)
        \<and> (length (retained (nodes g) query) \<le> 5 \<longrightarrow>
             (clears_threshold (nodes g ! i) query \<longleftrightarrow> i \<in> fst ` set (returned_rows g query))))"
proof -
  have len: "length (retained (nodes g) query) = length (matched_rows g query)"
    using project_matched_rows [of g query, symmetric] by simp
  have res: "fst (activate_perceptions g query) =
       map (\<lambda>r. (bundle_id (nodes g ! fst r), snd r)) (returned_rows g query)"
  proof -
    have "fst (activate_perceptions g query)
      = map (\<lambda>r. (bundle_id (nodes (snd (activate_perceptions g query)) ! fst r), snd r))
            (returned_rows g query)"
      by (simp add: activate_perceptions_def Let_def)
    also have "\<dots> = map (\<lambda>r. (bundle_id (nodes g ! fst r), snd r)) (returned_rows g query)"
      by (rule map_cong [OF refl]) (simp add: activate_perceptions_nth returned_rows_bound)
    finally show ?thesis .
  qed
  have sub: "i \<in> fst ` set (returned_rows g query) \<Longrightarrow> clears_threshold (nodes g ! i) query" for i
    using returned_rows_subset [of g query] fst_set_matched_rows [of i g query] by auto
  have all: "length (retained (nodes g) query) \<le> 5 \<Longrightarrow> i < length (nodes g) \<Longrightarrow>
      clears_threshold (nodes g ! i) query \<longleftrightarrow> i \<in> fst ` set (returned_rows g query)" for i
    using returned_rows_all [of g query] fst_set_matched_rows [of i g query] len by simp
  have n: "length (nodes (snd (activate_perceptions g query))) = length (nodes g)"
    by (simp add: nodes_activate_perceptions)
  have r: "rels (snd (activate_perceptions g query)) = rels g"
    by (simp add: activate_perceptions_def Let_def)
  show ?thesis
    using n r res sub all activate_perceptions_nth [of _ g query] by blast
qed

text \<open>
  Against C2 as stated: in \<open>ladder\<close>, six perceptions clear the threshold for the query
  \<open>[1, 0.5]\<close>. The one with the lowest similarity, \<open>p1\<close>, is cut off by \<open>LIMIT 5\<close> and
  yet its \<open>activation_count\<close> goes from 0 to 1, because \<open>SET\<close> runs on every row that
  passed \<open>WHERE\<close>.
\<close>

theorem activation_without_return_counterexample:
  "bundle_id (nodes ladder ! 1) = ''p1''
   \<and> activation_count (nodes ladder ! 1) = 0
   \<and> activation_count (nodes (snd (activate_perceptions ladder [1, 0.5])) ! 1) = 1
   \<and> 1 \<notin> fst ` set (returned_rows ladder [1, 0.5])
   \<and> ''p1'' \<notin> fst ` set (fst (activate_perceptions ladder [1, 0.5]))"
  by (simp add: ladder_def eval_defs)

theorem activate_perceptions_counts_witness:
  "length (retained (nodes ladder) [0.5, 0]) \<le> 5
   \<and> (3::nat) < length (nodes ladder)
   \<and> clears_threshold (nodes ladder ! 3) [0.5, 0]
   \<and> 3 \<in> fst ` set (returned_rows ladder [0.5, 0])
   \<and> nodes (snd (activate_perceptions ladder [0.5, 0])) ! 3 = (nodes ladder ! 3)\<lparr>activation_count := 1\<rparr>
   \<and> \<not> clears_threshold (nodes ladder ! 2) [0.5, 0]
   \<and> 2 \<notin> fst ` set (returned_rows ladder [0.5, 0])
   \<and> nodes (snd (activate_perceptions ladder [0.5, 0])) ! 2 = nodes ladder ! 2"
  using activate_perceptions_counts [of ladder "[0.5, 0]"]
  by (simp add: ladder_def eval_defs)

lemma retained_via_keys:
  "retained ns query =
     List.map_filter
       (\<lambda>k. case similarity (snd k) query of
               None \<Rightarrow> None
             | Some s \<Rightarrow> (if s > 0.5 then Some (fst k, s) else None))
       (map (\<lambda>p. (bundle_id p, embedding p)) ns)"
  unfolding retained_def by (induction ns) (simp_all add: map_filter_simps split: option.splits)

lemma keys_activate_perceptions:
  "map (\<lambda>p. (bundle_id p, embedding p)) (nodes (snd (activate_perceptions g query))) =
   map (\<lambda>p. (bundle_id p, embedding p)) (nodes g)"
  by (rule nth_equalityI) (simp_all add: nodes_activate_perceptions set_activation_nth)

lemma retained_activate_perceptions:
  "retained (nodes (snd (activate_perceptions g query'))) query = retained (nodes g) query"
  by (simp add: retained_via_keys keys_activate_perceptions)

lemma fst_activate_after_activate:
  "fst (activate_perceptions (snd (activate_perceptions g query')) query) =
   fst (activate_perceptions g query)"
  by (simp add: activate_perceptions_fst retained_activate_perceptions)

text \<open>
  C9. Two consecutive similarity queries with the same query vector return the same
  sequence of \<open>(id, similarity)\<close> pairs, although together they add 2 to the
  \<open>activation_count\<close> of every perception that clears the threshold (and nothing to the
  others).
\<close>

theorem activate_perceptions_twice:
  "fst (activate_perceptions (snd (activate_perceptions g query)) query) =
     fst (activate_perceptions g query)
   \<and> (\<forall>i < length (nodes g).
        activation_count
          (nodes (snd (activate_perceptions (snd (activate_perceptions g query)) query)) ! i) =
        activation_count (nodes g ! i) + (if clears_threshold (nodes g ! i) query then 2 else 0))"
proof -
  let ?g' = "snd (activate_perceptions g query)"
  have len: "length (nodes ?g') = length (nodes g)"
    by (simp add: nodes_activate_perceptions)
  have "activation_count (nodes (snd (activate_perceptions ?g' query)) ! i) =
        activation_count (nodes g ! i) + (if clears_threshold (nodes g ! i) query then 2 else 0)"
    if "i < length (nodes g)" for i
  proof -
    have c: "clears_threshold (nodes ?g' ! i) query = clears_threshold (nodes g ! i) query"
      using that by (simp add: activate_perceptions_nth clears_threshold_def)
    show ?thesis
      using that len c
      by (simp add: activate_perceptions_nth [of i ?g'] activate_perceptions_nth [of i g])
  qed
  then show ?thesis by (simp add: fst_activate_after_activate)
qed

theorem activate_perceptions_twice_witness:
  "fst (activate_perceptions (snd (activate_perceptions ladder [1, 0.5])) [1, 0.5]) =
     [(''p6'', 3.5), (''p5'', 3), (''p4'', 2.5), (''p3'', 2), (''p2'', 1.5)]
   \<and> fst (activate_perceptions ladder [1, 0.5]) =
     [(''p6'', 3.5), (''p5'', 3), (''p4'', 2.5), (''p3'', 2), (''p2'', 1.5)]
   \<and> (6::nat) < length (nodes ladder)
   \<and> activation_count (nodes ladder ! 6) = 0
   \<and> activation_count
        (nodes (snd (activate_perceptions (snd (activate_perceptions ladder [1, 0.5])) [1, 0.5])) ! 6) = 2
   \<and> activation_count
        (nodes (snd (activate_perceptions (snd (activate_perceptions ladder [1, 0.5])) [1, 0.5])) ! 0) = 0"
  using activate_perceptions_twice [of ladder "[1, 0.5]"]
  by (simp add: ladder_def eval_defs)

lemma dot_product_take:
  "length emb \<le> length query \<Longrightarrow>
   dot_product emb (take (length emb) query @ other) = dot_product emb query"
  by (simp add: dot_product_sum nth_append)

text \<open>
  C10. For a query vector strictly longer than a perception's embedding, the similarity is
  the dot product of the embedding with the first \<open>size(embedding)\<close> components of the
  query; replacing the trailing components by anything else changes neither the
  similarity nor whether the perception clears the threshold.
\<close>

theorem similarity_ignores_trailing:
  "length (embedding p) < length query \<Longrightarrow>
   similarity (embedding p) query =
     Some (dot_product (embedding p) (take (length (embedding p)) query))
   \<and> similarity (embedding p) (take (length (embedding p)) query @ other) =
       similarity (embedding p) query
   \<and> clears_threshold p (take (length (embedding p)) query @ other) =
       clears_threshold p query"
proof -
  assume l: "length (embedding p) < length query"
  then have le: "length (embedding p) \<le> length query" by simp
  have a: "similarity (embedding p) query = Some (dot_product (embedding p) query)"
    using le by (rule similarity_dot_product)
  have b: "similarity (embedding p) (take (length (embedding p)) query @ other) =
      Some (dot_product (embedding p) (take (length (embedding p)) query @ other))"
    using le by (intro similarity_dot_product) simp
  have c: "dot_product (embedding p) (take (length (embedding p)) query @ other) =
      dot_product (embedding p) query" for other
    using le by (rule dot_product_take)
  show ?thesis
    using a b c c [of "[]"] by (simp add: clears_threshold_def)
qed

theorem similarity_ignores_trailing_witness:
  "length (embedding (nodes pair_graph ! 0)) < length [1, 1, 64 :: real]
   \<and> similarity (embedding (nodes pair_graph ! 0)) [1, 1, 64] = Some 2
   \<and> take (length (embedding (nodes pair_graph ! 0))) [1, 1, 64 :: real] @ [-8, 3] = [1, 1, -8, 3]
   \<and> similarity (embedding (nodes pair_graph ! 0)) [1, 1, -8, 3] = Some 2
   \<and> fst (activate_perceptions pair_graph [1, 1, 64]) = [(''a'', 2)]
   \<and> fst (activate_perceptions pair_graph [1, 1, -8, 3]) = [(''a'', 2)]"
  using similarity_ignores_trailing [of "nodes pair_graph ! 0" "[1, 1, 64]" "[-8, 3]"]
  by (simp add: pair_graph_def eval_defs)

text \<open>
  C5 (as amended). A query whose length differs from the length of a stored embedding
  raises nothing. When the query is the shorter one, the similarity of that perception is
  \<open>null\<close>, so the perception is dropped by \<open>WHERE\<close>: it is not among the rows, and the query
  leaves it as it was. When the query is the longer one, the similarity is the dot product
  of the embedding with the query cut to the embedding's length, and the perception is
  kept or dropped on that value.
\<close>

theorem length_mismatch_is_silent:
  "i < length (nodes g) \<Longrightarrow> length query \<noteq> length (embedding (nodes g ! i)) \<Longrightarrow>
   (length query < length (embedding (nodes g ! i)) \<longrightarrow>
      similarity (embedding (nodes g ! i)) query = None
      \<and> i \<notin> fst ` set (matched_rows g query)
      \<and> i \<notin> fst ` set (returned_rows g query)
      \<and> nodes (snd (activate_perceptions g query)) ! i = nodes g ! i)
   \<and> (length (embedding (nodes g ! i)) < length query \<longrightarrow>
      where_row g query i =
        (if dot_product (embedding (nodes g ! i)) (take (length (embedding (nodes g ! i))) query) > 0.5
         then Some (i, dot_product (embedding (nodes g ! i)) (take (length (embedding (nodes g ! i))) query))
         else None))"
proof -
  assume i: "i < length (nodes g)"
  let ?e = "embedding (nodes g ! i)"
  have short: "similarity ?e query = None
      \<and> i \<notin> fst ` set (matched_rows g query)
      \<and> i \<notin> fst ` set (returned_rows g query)
      \<and> nodes (snd (activate_perceptions g query)) ! i = nodes g ! i"
    if "length query < length ?e"
  proof -
    have n: "similarity ?e query = None" using that by (rule similarity_null)
    then have c: "\<not> clears_threshold (nodes g ! i) query" by (simp add: clears_threshold_def)
    then have m: "i \<notin> fst ` set (matched_rows g query)" by (simp add: fst_set_matched_rows)
    then have r: "i \<notin> fst ` set (returned_rows g query)"
      using returned_rows_subset [of g query] by blast
    show ?thesis using n m r c i by (simp add: activate_perceptions_nth)
  qed
  have long: "where_row g query i =
        (if dot_product ?e (take (length ?e) query) > 0.5
         then Some (i, dot_product ?e (take (length ?e) query)) else None)"
    if "length ?e < length query"
  proof -
    have "similarity ?e query = Some (dot_product ?e query)"
      using that by (intro similarity_dot_product) simp
    moreover have "dot_product ?e (take (length ?e) query @ []) = dot_product ?e query"
      using that by (intro dot_product_take) simp
    ultimately show ?thesis by (simp add: where_row_def)
  qed
  show ?thesis using short long by blast
qed

text \<open>
  Against C5 as stated: the stored embedding has length 2. A query of length 3 returns the
  perception with similarity \<open>1 * 1 + 1 * 1 = 2\<close> (the third component, 64, is not used)
  and activates it; a query of length 1 returns the empty result and changes nothing.
  Neither raises.
\<close>

theorem dimension_mismatch_counterexample:
  "length [1, 1, 64 :: real] \<noteq> length (embedding (nodes pair_graph ! 0))
   \<and> fst (activate_perceptions pair_graph [1, 1, 64]) = [(''a'', 2)]
   \<and> activation_count (nodes (snd (activate_perceptions pair_graph [1, 1, 64])) ! 0) = 1
   \<and> length [1 :: real] \<noteq> length (embedding (nodes pair_graph ! 0))
   \<and> activate_perceptions pair_graph [1] = ([], pair_graph)"
  by (simp add: pair_graph_def eval_defs)

theorem length_mismatch_is_silent_witness:
  "(0::nat) < length (nodes pair_graph)
   \<and> length [1 :: real] \<noteq> length (embedding (nodes pair_graph ! 0))
   \<and> length [1 :: real] < length (embedding (nodes pair_graph ! 0))
   \<and> similarity (embedding (nodes pair_graph ! 0)) [1] = None
   \<and> 0 \<notin> fst ` set (returned_rows pair_graph [1])
   \<and> nodes (snd (activate_perceptions pair_graph [1])) ! 0 = nodes pair_graph ! 0
   \<and> length (embedding (nodes pair_graph ! 0)) < length [1, 1, 64 :: real]
   \<and> where_row pair_graph [1, 1, 64] 0 = Some (0, 2)"
  using length_mismatch_is_silent [of 0 pair_graph "[1]"]
    length_mismatch_is_silent [of 0 pair_graph "[1, 1, 64]"]
  by (simp add: pair_graph_def eval_defs)




lemma calculate_accuracy_binary:
  "calculate_accuracy (fst (activate_perceptions g (query_embedding q))) (expected q) =
     binary_accuracy g q"
  by (simp add: calculate_accuracy_def binary_accuracy_def)

lemma binary_accuracy_activate:
  "binary_accuracy (snd (activate_perceptions g query')) q = binary_accuracy g q"
  by (simp add: binary_accuracy_def fst_activate_after_activate)

lemma test_loop_results:
  "(\<forall>q. binary_accuracy g' q = binary_accuracy g q) \<Longrightarrow>
   fst (test_loop g' qs results) = results @ map (binary_accuracy g) qs"
proof (induction qs arbitrary: g' results)
  case Nil
  then show ?case by simp
next
  case (Cons q qs)
  let ?g'' = "snd (activate_perceptions g' (query_embedding q))"
  have "\<forall>q. binary_accuracy ?g'' q = binary_accuracy g q"
    using Cons.prems by (simp add: binary_accuracy_activate)
  then have "fst (test_loop ?g'' qs (results @ [binary_accuracy g q])) =
      (results @ [binary_accuracy g q]) @ map (binary_accuracy g) qs"
    by (rule Cons.IH)
  moreover have "calculate_accuracy (fst (activate_perceptions g' (query_embedding q))) (expected q)
      = binary_accuracy g q"
    using Cons.prems by (simp add: calculate_accuracy_binary)
  ultimately show ?case by (simp add: split_beta Let_def)
qed

text \<open>
  C3. For every non-empty list of test queries, \<open>test\<close> returns the arithmetic mean of the
  queries' binary accuracies, each of which is 1 when the top-ranked result's id is among
  the query's expected ids and 0 otherwise (0 as well when the query has no result).
\<close>

theorem test_mean_accuracy:
  "test_queries \<noteq> [] \<Longrightarrow>
   fst (test g test_queries) =
     Inr (sum_list (map (binary_accuracy g) test_queries) / real (length test_queries))
   \<and> (\<forall>q \<in> set test_queries.
         binary_accuracy g q =
           (if fst (activate_perceptions g (query_embedding q)) \<noteq> [] \<and>
               fst (hd (fst (activate_perceptions g (query_embedding q)))) \<in> set (expected q)
            then 1 else 0))"
proof -
  assume ne: "test_queries \<noteq> []"
  have r: "fst (test_loop g test_queries []) = map (binary_accuracy g) test_queries"
    using test_loop_results [of g g test_queries "[]"] by simp
  have "fst (test g test_queries) =
     Inr (sum_list (map (binary_accuracy g) test_queries) / real (length test_queries))"
    using ne r by (simp add: test_def split_beta)
  moreover have "binary_accuracy g q =
           (if fst (activate_perceptions g (query_embedding q)) \<noteq> [] \<and>
               fst (hd (fst (activate_perceptions g (query_embedding q)))) \<in> set (expected q)
            then 1 else 0)" for q
    by (simp add: binary_accuracy_def split: list.splits)
  ultimately show ?thesis by simp
qed

theorem test_mean_accuracy_witness:
  "create_test_queries \<noteq> []
   \<and> map (binary_accuracy (train empty_graph create_synthetic_data)) create_test_queries = [1, 0, 0]
   \<and> fst (test (train empty_graph create_synthetic_data) create_test_queries) = Inr (1 / 3)"
  using test_mean_accuracy [of create_test_queries "train empty_graph create_synthetic_data"]
  by (simp add: create_test_queries_def create_synthetic_data_def binary_accuracy_def eval_defs)

text \<open>
  C4 (as amended). On an empty list of queries \<open>test\<close> fails with Python's
  \<open>ZeroDivisionError\<close>, raised by the division \<open>sum(results) / len(results)\<close> of 0 by 0; it
  returns no number, and the graph is left as it was.
\<close>

theorem test_empty_fails:
  "test g [] = (Inl ZeroDivisionError, g)"
  by (simp add: test_def)

text \<open>
  Against C4 as stated: the failure on the empty list is a \<open>ZeroDivisionError\<close>, which is
  not the \<open>EmptyInput\<close> error.
\<close>

theorem test_empty_counterexample:
  "fst (test empty_graph []) = Inl ZeroDivisionError
   \<and> fst (test empty_graph []) \<noteq> Inl EmptyInput"
  by (simp add: test_def)

lemma nodes_create_relates [simp]: "nodes (create_relates b r g) = nodes g"
  by (simp add: create_relates_def)

lemma match_id_create_relates [simp]: "match_id (create_relates b r g) x = match_id g x"
  by (simp add: match_id_def)

lemma nodes_fold_create_relates [simp]: "nodes (fold (create_relates b) rs g) = nodes g"
  by (induction rs arbitrary: g) simp_all

lemma match_id_fold_create_relates [simp]:
  "match_id (fold (create_relates b) rs g) x = match_id g x"
  by (simp add: match_id_def)

lemma nodes_store_perception:
  "nodes (store_perception g b e rs) =
     nodes g @ [\<lparr>bundle_id = b, embedding = e, activation_count = 0, confidence = 0.5\<rparr>]"
  by (simp add: store_perception_def create_node_def)

lemma match_id_create_node:
  "match_id (create_node b e g) x =
     match_id g x @ (if x = b then [length (nodes g)] else [])"
proof -
  have "filter (\<lambda>i. bundle_id ((nodes g @ [p]) ! i) = x) [0..<length (nodes g)] =
        filter (\<lambda>i. bundle_id (nodes g ! i) = x) [0..<length (nodes g)]" for p
    by (rule filter_cong) (simp_all add: nth_append)
  then show ?thesis by (auto simp: match_id_def create_node_def)
qed

lemma match_id_store_perception:
  "match_id (store_perception g b e rs) x =
     match_id g x @ (if x = b then [length (nodes g)] else [])"
  by (simp add: store_perception_def match_id_create_node)

text \<open>
  C7 (as amended). \<open>store_perception\<close> raises nothing and overwrites nothing: whatever the
  graph holds, the existing perceptions stay as they are and one new perception with the
  given id and embedding, \<open>activation_count\<close> 0 and \<open>confidence\<close> 0.5 is added after them.
  The number of perceptions carrying the id grows by one, so after a second creation with
  the same id the graph holds two perceptions under that id.
\<close>

theorem store_perception_appends:
  "nodes (store_perception g b e rs) =
     nodes g @ [\<lparr>bundle_id = b, embedding = e, activation_count = 0, confidence = 0.5\<rparr>]
   \<and> match_id (store_perception g b e rs) b = match_id g b @ [length (nodes g)]"
  by (simp add: nodes_store_perception match_id_store_perception)

text \<open>
  Against C7 as stated: after two creations with the id \<open>a\<close> and the embeddings \<open>[1]\<close> and
  \<open>[2]\<close>, the graph holds two different perceptions with the id \<open>a\<close>; the first was not
  overwritten and nothing was raised.
\<close>

theorem duplicate_id_counterexample:
  "nodes twice =
     [\<lparr>bundle_id = ''a'', embedding = [1], activation_count = 0, confidence = 0.5\<rparr>,
      \<lparr>bundle_id = ''a'', embedding = [2], activation_count = 0, confidence = 0.5\<rparr>]
   \<and> match_id twice ''a'' = [0, 1]
   \<and> nodes twice ! 0 \<noteq> nodes twice ! 1"
  by (simp add: twice_def eval_defs)

lemma match_id_empty_iff: "match_id g x = [] \<longleftrightarrow> x \<notin> bundle_id ` set (nodes g)"
proof -
  have "set (nodes g) = (\<lambda>i. nodes g ! i) ` {0..<length (nodes g)}"
    by (metis list.set_map map_nth set_upt)
  then show ?thesis by (auto simp: match_id_def filter_empty_conv)
qed

lemma match_id_bound: "i \<in> set (match_id g x) \<Longrightarrow> i < length (nodes g)"
  by (simp add: match_id_def)

lemma create_relates_missing:
  "target r \<notin> bundle_id ` set (nodes g) \<Longrightarrow> create_relates b r g = g"
  using match_id_empty_iff [of g "target r"] by (simp add: create_relates_def)

lemma fold_create_relates_filter:
  "fold (create_relates b) (filter (\<lambda>r. target r \<in> bundle_id ` set (nodes g)) rs) g =
   fold (create_relates b) rs g"
proof (induction rs arbitrary: g)
  case Nil
  then show ?case by simp
next
  case (Cons r rs)
  show ?case
  proof (cases "target r \<in> bundle_id ` set (nodes g)")
    case True
    then show ?thesis using Cons.IH [of "create_relates b r g"] by simp
  next
    case False
    then show ?thesis using Cons.IH [of g] by (simp add: create_relates_missing)
  qed
qed

lemma edges_of_cong: "nodes g' = nodes g \<Longrightarrow> edges_of g' b r = edges_of g b r"
  by (simp add: edges_of_def match_id_def)

lemma rels_fold_create_relates:
  "rels (fold (create_relates b) rs g) = rels g @ concat (map (edges_of g b) rs)"
proof (induction rs arbitrary: g)
  case Nil
  then show ?case by simp
next
  case (Cons r rs)
  have e: "edges_of (create_relates b r g) b = edges_of g b"
    by (rule ext, rule edges_of_cong) simp
  have "rels (create_relates b r g) = rels g @ edges_of g b r"
    by (simp add: create_relates_def edges_of_def)
  then show ?case using Cons.IH [of "create_relates b r g"] by (simp add: e)
qed

lemma filter_source_none:
  "n \<notin> set ps \<Longrightarrow>
   filter (\<lambda>x. source x = n)
     (concat (map (\<lambda>p1. map (\<lambda>p2. \<lparr>source = p1, dest = p2, rel_weight = w\<rparr>) js) ps)) = []"
  by (induction ps) (simp_all add: filter_empty_conv)

lemma filter_source_all:
  "filter (\<lambda>x. source x = n) (map (\<lambda>p2. \<lparr>source = n, dest = p2, rel_weight = w\<rparr>) js) =
   map (\<lambda>p2. \<lparr>source = n, dest = p2, rel_weight = w\<rparr>) js"
  by (induction js) simp_all

lemma filter_source_edges_of:
  assumes "match_id g b = old @ [n]" and "n \<notin> set old"
  shows "filter (\<lambda>x. source x = n) (edges_of g b r) =
         map (\<lambda>j. \<lparr>source = n, dest = j, rel_weight = weight r\<rparr>) (match_id g (target r))"
proof -
  let ?row = "\<lambda>p1. map (\<lambda>p2. \<lparr>source = p1, dest = p2, rel_weight = weight r\<rparr>) (match_id g (target r))"
  have "edges_of g b r = concat (map ?row old) @ ?row n"
    by (simp add: edges_of_def assms(1))
  then have "filter (\<lambda>x. source x = n) (edges_of g b r) =
      filter (\<lambda>x. source x = n) (concat (map ?row old)) @ filter (\<lambda>x. source x = n) (?row n)"
    by (simp only: filter_append)
  then show ?thesis
    by (simp only: filter_source_none [OF assms(2)] filter_source_all append_Nil)
qed

lemma new_edges_store_perception:
  "drop (length (rels g)) (rels (store_perception g b e rs)) =
     concat (map (edges_of (store_perception g b e rs) b) rs)"
proof -
  have "edges_of (store_perception g b e rs) b = edges_of (create_node b e g) b"
    by (rule ext, rule edges_of_cong) (simp add: store_perception_def)
  moreover have "rels (store_perception g b e rs) =
      rels g @ concat (map (edges_of (create_node b e g) b) rs)"
    by (simp add: store_perception_def rels_fold_create_relates create_node_def)
  ultimately show ?thesis by simp
qed

lemma distinct_match_id [simp]: "distinct (match_id g x)"
  by (simp add: match_id_def)

lemma match_id_unique:
  assumes "distinct (map bundle_id (nodes g))"
  shows "length (match_id g x) \<le> 1"
proof -
  have "i = j" if "i \<in> set (match_id g x)" "j \<in> set (match_id g x)" for i j
  proof -
    from that have "i < length (nodes g)" "j < length (nodes g)"
      "map bundle_id (nodes g) ! i = map bundle_id (nodes g) ! j"
      by (simp_all add: match_id_def)
    with assms show ?thesis by (simp add: nth_eq_iff_index_eq del: nth_map)
  qed
  then have "card (set (match_id g x)) \<le> 1"
    by (simp add: card_le_Suc0_iff_eq)
  then show ?thesis by (simp add: distinct_card)
qed

lemma edges_of_single:
  "match_id g b = [n] \<Longrightarrow>
   edges_of g b r =
     map (\<lambda>j. \<lparr>source = n, dest = j, rel_weight = weight r\<rparr>) (match_id g (target r))"
  by (simp add: edges_of_def)

text \<open>
  C8 (as amended). In \<open>store_perception\<close>, the edges already in the graph stay. The new
  edges are, relation by relation, one edge with the relation's weight for each pair of a
  perception carrying the new id (the older ones, if any, and the new node) and a
  perception carrying the target id. So a relation whose target id is carried by no
  perception at that time (the new perception included) creates nothing and raises
  nothing, and leaving such relations out gives the same graph; and the edges leaving the
  new node are one per relation and perception carrying the target id. When the ids in the
  graph are pairwise different these are all the new edges, at most one per relation.
\<close>

theorem store_perception_relations:
  "take (length (rels g)) (rels (store_perception g b e rs)) = rels g
   \<and> drop (length (rels g)) (rels (store_perception g b e rs)) =
       concat (map (\<lambda>r. concat (map (\<lambda>p1. map (\<lambda>p2. \<lparr>source = p1, dest = p2, rel_weight = weight r\<rparr>)
                                               (match_id (store_perception g b e rs) (target r)))
                                    (match_id (store_perception g b e rs) b))) rs)
   \<and> match_id (store_perception g b e rs) b = match_id g b @ [length (nodes g)]
   \<and> store_perception g b e
        (filter (\<lambda>r. target r \<in> bundle_id ` set (nodes (store_perception g b e rs))) rs) =
       store_perception g b e rs
   \<and> (\<forall>r \<in> set rs. match_id (store_perception g b e rs) (target r) = [] \<longleftrightarrow>
         target r \<notin> bundle_id ` set (nodes (store_perception g b e rs)))
   \<and> filter (\<lambda>x. source x = length (nodes g))
        (drop (length (rels g)) (rels (store_perception g b e rs))) =
       concat (map (\<lambda>r. map (\<lambda>j. \<lparr>source = length (nodes g), dest = j, rel_weight = weight r\<rparr>)
                             (match_id (store_perception g b e rs) (target r))) rs)
   \<and> (distinct (map bundle_id (nodes (store_perception g b e rs))) \<longrightarrow>
        drop (length (rels g)) (rels (store_perception g b e rs)) =
          concat (map (\<lambda>r. map (\<lambda>j. \<lparr>source = length (nodes g), dest = j, rel_weight = weight r\<rparr>)
                                (match_id (store_perception g b e rs) (target r))) rs)
        \<and> (\<forall>r \<in> set rs. length (match_id (store_perception g b e rs) (target r)) \<le> 1))"
proof -
  let ?g' = "store_perception g b e rs" and ?n = "length (nodes g)"
  let ?out = "\<lambda>r. map (\<lambda>j. \<lparr>source = ?n, dest = j, rel_weight = weight r\<rparr>) (match_id ?g' (target r))"
  have new: "drop (length (rels g)) (rels ?g') = concat (map (edges_of ?g' b) rs)"
    by (rule new_edges_store_perception)
  have pairs: "drop (length (rels g)) (rels ?g') =
       concat (map (\<lambda>r. concat (map (\<lambda>p1. map (\<lambda>p2. \<lparr>source = p1, dest = p2, rel_weight = weight r\<rparr>)
                                               (match_id ?g' (target r)))
                                    (match_id ?g' b))) rs)"
    using new unfolding edges_of_def .
  have old: "take (length (rels g)) (rels ?g') = rels g"
    by (simp add: store_perception_def rels_fold_create_relates create_node_def)
  have nodes: "nodes ?g' = nodes (create_node b e g)"
    by (simp add: store_perception_def)
  have skip: "store_perception g b e (filter (\<lambda>r. target r \<in> bundle_id ` set (nodes ?g')) rs) = ?g'"
    unfolding nodes unfolding store_perception_def by (rule fold_create_relates_filter)
  have none: "\<forall>r \<in> set rs. match_id ?g' (target r) = [] \<longleftrightarrow> target r \<notin> bundle_id ` set (nodes ?g')"
    by (simp add: match_id_empty_iff)
  have m: "match_id ?g' b = match_id g b @ [?n]"
    by (simp add: match_id_store_perception)
  have fresh: "?n \<notin> set (match_id g b)"
    using match_id_bound [of ?n g b] by auto
  have "filter (\<lambda>x. source x = ?n) (concat (map (edges_of ?g' b) rs)) = concat (map ?out rs)"
    by (simp add: filter_concat comp_def filter_source_edges_of [OF m fresh])
  then have out: "filter (\<lambda>x. source x = ?n) (drop (length (rels g)) (rels ?g')) = concat (map ?out rs)"
    by (simp only: new)
  have uniq: "drop (length (rels g)) (rels ?g') = concat (map ?out rs)
      \<and> (\<forall>r \<in> set rs. length (match_id ?g' (target r)) \<le> 1)"
    if d: "distinct (map bundle_id (nodes ?g'))"
  proof -
    have "length (match_id ?g' b) \<le> 1" using d by (rule match_id_unique)
    then have "match_id ?g' b = [?n]" using m by simp
    then have "edges_of ?g' b = ?out" by (intro ext) (rule edges_of_single)
    then have "drop (length (rels g)) (rels ?g') = concat (map ?out rs)"
      using new by simp
    moreover have "\<forall>r \<in> set rs. length (match_id ?g' (target r)) \<le> 1"
      using match_id_unique [OF d] by blast
    ultimately show ?thesis by blast
  qed
  show ?thesis
    apply (intro conjI)
          apply (rule old)
         apply (rule pairs)
        apply (rule m)
       apply (rule skip)
      apply (rule none)
     apply (rule out)
    using uniq apply blast
    done
qed

text \<open>
  Against C8 as stated: with ids that repeat, a relation whose target exists does not
  create one edge from the new node to the target. In \<open>twice\<close> two perceptions carry the
  id \<open>a\<close>, and a new perception \<open>b\<close> with the single relation to \<open>a\<close> gets two edges, one
  to each of them. And when \<open>z\<close> is stored a second time with the single relation to \<open>x\<close>,
  two edges to \<open>x\<close> are created, of which the first leaves the older \<open>z\<close> (node 2), not the
  new node (node 3).
\<close>

theorem relation_edges_counterexample:
  "match_id twice ''a'' = [0, 1]
   \<and> rels twice = []
   \<and> rels (store_perception twice ''b'' [3] [\<lparr>target = ''a'', weight = 0.5\<rparr>]) =
       [\<lparr>source = 2, dest = 0, rel_weight = 0.5\<rparr>,
        \<lparr>source = 2, dest = 1, rel_weight = 0.5\<rparr>]
   \<and> map bundle_id (nodes (store_perception xy_graph ''z'' [3] [])) = [''x'', ''y'', ''z'']
   \<and> rels (store_perception xy_graph ''z'' [3] []) = []
   \<and> length (nodes (store_perception (store_perception xy_graph ''z'' [3] []) ''z'' [4]
                      [\<lparr>target = ''x'', weight = 0.5\<rparr>])) = 4
   \<and> rels (store_perception (store_perception xy_graph ''z'' [3] []) ''z'' [4]
              [\<lparr>target = ''x'', weight = 0.5\<rparr>]) =
       [\<lparr>source = 2, dest = 0, rel_weight = 0.5\<rparr>,
        \<lparr>source = 3, dest = 0, rel_weight = 0.5\<rparr>]"
  by (simp add: twice_def xy_graph_def eval_defs)

theorem store_perception_relations_witness:
  "distinct (map bundle_id (nodes (store_perception xy_graph ''z'' [3] z_relations)))
   \<and> map target z_relations = [''y'', ''w'', ''x'', ''z'']
   \<and> ''w'' \<notin> bundle_id ` set (nodes (store_perception xy_graph ''z'' [3] z_relations))
   \<and> match_id (store_perception xy_graph ''z'' [3] z_relations) ''w'' = []
   \<and> match_id (store_perception xy_graph ''z'' [3] z_relations) ''y'' = [1]
   \<and> match_id (store_perception xy_graph ''z'' [3] z_relations) ''z'' = [2]
   \<and> length (nodes xy_graph) = 2 \<and> rels xy_graph = []
   \<and> rels (store_perception xy_graph ''z'' [3] z_relations) =
       [\<lparr>source = 2, dest = 1, rel_weight = 0.75\<rparr>,
        \<lparr>source = 2, dest = 0, rel_weight = 0.25\<rparr>,
        \<lparr>source = 2, dest = 2, rel_weight = 1\<rparr>]
   \<and> rels demo_graph = []"
  using store_perception_relations [of xy_graph "''z''" "[3]" z_relations]
  by (simp add: xy_graph_def z_relations_def demo_graph_def create_synthetic_data_def eval_defs)

end
